theory Spec2Isabelle
  imports Complex_Main
begin

section \<open>Exceptions and the environment of \<open>parse_bvh\<close>\<close>

text \<open>
  Embedding of \<^verbatim>\<open>src/utils/parse_bvh.py\<close>, function \<^verbatim>\<open>parse_bvh\<close> (lines 19-69).

  The parser defines no exception class of its own. Every exception it can end with is
  raised by \<^verbatim>\<open>open\<close>, by the \<^verbatim>\<open>bvh\<close> package or by \<^verbatim>\<open>np.array\<close>, and the only handler
  is \<^verbatim>\<open>except KeyError\<close> (line 57). An exception is therefore a value that says whether it
  is a \<^verbatim>\<open>KeyError\<close>; the other constructors name the class that was raised.
\<close>

datatype exn =
    KeyError string
  | ValueError string
  | FileNotFoundError string
  | OtherError string string

fun is_KeyError :: "exn \<Rightarrow> bool" where
  "is_KeyError (KeyError k) = True"
| "is_KeyError (ValueError s) = False"
| "is_KeyError (FileNotFoundError p) = False"
| "is_KeyError (OtherError c s) = False"

text \<open>
  The object \<^verbatim>\<open>mocap = Bvh(text)\<close> comes from the third-party package \<^verbatim>\<open>bvh\<close>
  (line 16), which is an import and not a source of this repository. It is a parameter:
  a record of the four members \<^verbatim>\<open>parse_bvh\<close> reads, each of which either returns or raises.
  \<^item> \<open>get_joints\<close>: the names \<^verbatim>\<open>[j.name for j in mocap.get_joints()]\<close> (line 33);
  \<^item> \<open>nframes\<close>: the declared frame count, a Python \<^verbatim>\<open>int\<close>;
  \<^item> \<open>frame_joint_channel i joint channel\<close>: the sample, a Python \<^verbatim>\<open>float\<close>, on which
    the \<^verbatim>\<open>float(...)\<close> of lines 42, 46 and 55 is the identity;
  \<^item> \<open>frame_time\<close>: seconds per frame.
  Samples are modelled as reals: the parser does no arithmetic on them.
\<close>

record bvh =
  get_joints :: "exn + string list"
  nframes :: "exn + int"
  frame_joint_channel :: "nat \<Rightarrow> string \<Rightarrow> string \<Rightarrow> exn + real"
  frame_time :: "exn + real"

text \<open>The returned dictionary (lines 65-69).\<close>

record motion_dataset =
  joint_names :: "string list"
  frames :: "real list list"
  frame_time :: real

text \<open>
  The world \<^verbatim>\<open>parse_bvh\<close> runs in: the files it can open and what it has printed.
  The message of line 34 is kept as an event carrying the joint names.
\<close>

datatype event = Found_joints "string list"

record world =
  files :: "string \<rightharpoonup> string"
  stdout :: "event list"

definition open_read :: "world \<Rightarrow> string \<Rightarrow> exn + string" where
  \<comment> \<open>line 29-30: \<^verbatim>\<open>with open(bvh_path, "r") as f: f.read()\<close>\<close>
  "open_read w bvh_path =
     (case files w bvh_path of None \<Rightarrow> Inl (FileNotFoundError bvh_path) | Some text \<Rightarrow> Inr text)"

definition print_joints :: "string list \<Rightarrow> world \<Rightarrow> world" where
  \<comment> \<open>line 34\<close>
  "print_joints names w = w\<lparr>stdout := stdout w @ [Found_joints names]\<rparr>"

section \<open>The frame loop\<close>

text \<open>
  A list built element by element from calls that may raise (the comprehensions of
  lines 42 and 46, the loops of lines 38 and 50): the first exception ends it.
\<close>

fun collect :: "('a \<Rightarrow> exn + 'b) \<Rightarrow> 'a list \<Rightarrow> exn + 'b list" where
  "collect f [] = Inr []"
| "collect f (x # xs) =
     (case f x of
        Inl e \<Rightarrow> Inl e
      | Inr y \<Rightarrow> (case collect f xs of Inl e \<Rightarrow> Inl e | Inr ys \<Rightarrow> Inr (y # ys)))"

definition root_position_channels :: "string list" where
  "root_position_channels = [''Xposition'', ''Yposition'', ''Zposition'']"

definition root_rotation_channels :: "string list" where
  "root_rotation_channels = [''Zrotation'', ''Xrotation'', ''Yrotation'']"

definition rotation_axes :: "string list" where
  "rotation_axes = [''Zrotation'', ''Yrotation'', ''Xrotation'']"

text \<open>
  Lines 52-58: \<^verbatim>\<open>rot_val\<close> starts at 0.0; the first axis whose lookup returns ends the
  search (\<^verbatim>\<open>break\<close>); a \<^verbatim>\<open>KeyError\<close> moves to the next axis (\<^verbatim>\<open>continue\<close>); any other
  exception is not caught.
\<close>

fun try_axes :: "bvh \<Rightarrow> nat \<Rightarrow> string \<Rightarrow> string list \<Rightarrow> real \<Rightarrow> exn + real" where
  "try_axes mocap i joint [] rot_val = Inr rot_val"
| "try_axes mocap i joint (axis # axes) rot_val =
     (case frame_joint_channel mocap i joint axis of
        Inr v \<Rightarrow> Inr v
      | Inl e \<Rightarrow> (if is_KeyError e then try_axes mocap i joint axes rot_val else Inl e))"

definition joint_rotation :: "bvh \<Rightarrow> nat \<Rightarrow> string \<Rightarrow> exn + real" where
  "joint_rotation mocap i joint = try_axes mocap i joint rotation_axes 0"

text \<open>Lines 39-59: one row. \<^verbatim>\<open>joint_names[1:]\<close> is \<open>drop 1\<close>.\<close>

definition build_frame :: "bvh \<Rightarrow> string list \<Rightarrow> nat \<Rightarrow> exn + real list" where
  "build_frame mocap names i =
     (case collect (frame_joint_channel mocap i ''Hips'') root_position_channels of
        Inl e \<Rightarrow> Inl e
      | Inr hips_pos \<Rightarrow>
          (case collect (frame_joint_channel mocap i ''Hips'') root_rotation_channels of
             Inl e \<Rightarrow> Inl e
           | Inr hips_rot \<Rightarrow>
               (case collect (joint_rotation mocap i) (drop 1 names) of
                  Inl e \<Rightarrow> Inl e
                | Inr rots \<Rightarrow> Inr (hips_pos @ hips_rot @ rots))))"

text \<open>Lines 37-61: \<^verbatim>\<open>range(n)\<close> is empty for \<open>n \<le> 0\<close>.\<close>

definition build_frames :: "bvh \<Rightarrow> string list \<Rightarrow> int \<Rightarrow> exn + real list list" where
  "build_frames mocap names n = collect (build_frame mocap names) [0..<nat n]"

text \<open>
  Line 63: \<^verbatim>\<open>np.array(frames, dtype=np.float32)\<close>. The cast of one Python float to
  float32 is the parameter \<open>f32\<close>; rows of unequal length make \<^verbatim>\<open>np.array\<close> raise
  \<^verbatim>\<open>ValueError\<close>.
\<close>

definition np_array :: "(real \<Rightarrow> real) \<Rightarrow> real list list \<Rightarrow> exn + real list list" where
  "np_array f32 rows =
     (if list_all (\<lambda>r. length r = length (hd rows)) rows
      then Inr (map (map f32) rows)
      else Inl (ValueError ''inhomogeneous shape''))"

section \<open>\<open>parse_bvh\<close>\<close>

text \<open>Lines 36-69, after the joint names are known and printed.\<close>

definition extract_motion ::
  "(real \<Rightarrow> real) \<Rightarrow> bvh \<Rightarrow> string list \<Rightarrow> exn + motion_dataset" where
  "extract_motion f32 mocap names =
     (case nframes mocap of
        Inl e \<Rightarrow> Inl e
      | Inr n \<Rightarrow>
          (case build_frames mocap names n of
             Inl e \<Rightarrow> Inl e
           | Inr rows \<Rightarrow>
               (case np_array f32 rows of
                  Inl e \<Rightarrow> Inl e
                | Inr arr \<Rightarrow>
                    (case bvh.frame_time mocap of
                       Inl e \<Rightarrow> Inl e
                     | Inr ft \<Rightarrow>
                         Inr \<lparr>joint_names = names, frames = arr, frame_time = ft\<rparr>))))"

text \<open>
  Lines 19-69. \<open>Bvh\<close> is the constructor of the \<^verbatim>\<open>bvh\<close> package, applied to the whole
  text of the file. The result is the returned dictionary or the exception, with the
  world after the call.
\<close>

definition parse_bvh ::
  "(string \<Rightarrow> exn + bvh) \<Rightarrow> (real \<Rightarrow> real) \<Rightarrow> string \<Rightarrow> world \<Rightarrow> (exn + motion_dataset) \<times> world"
  where
  "parse_bvh Bvh f32 bvh_path w =
     (case open_read w bvh_path of
        Inl e \<Rightarrow> (Inl e, w)
      | Inr text \<Rightarrow>
          (case Bvh text of
             Inl e \<Rightarrow> (Inl e, w)
           | Inr mocap \<Rightarrow>
               (case get_joints mocap of
                  Inl e \<Rightarrow> (Inl e, w)
                | Inr names \<Rightarrow> (extract_motion f32 mocap names, print_joints names w))))"

section \<open>Example files\<close>

text \<open>
  Hips (root) with its six channels, Spine with a Y rotation only, Head with no rotation
  channel, LeftArm with the three rotations; two frames. A lookup of a channel the joint
  does not have raises \<^verbatim>\<open>KeyError\<close>, which is what the handler of line 57 expects; the
  sample of frame \<open>i\<close> is the value below plus \<open>10 * i\<close>.
\<close>

definition demo_sample :: "string \<Rightarrow> string \<Rightarrow> real option" where
  "demo_sample joint channel =
     (if joint = ''Hips'' then
        (if channel = ''Xposition'' then Some 1
         else if channel = ''Yposition'' then Some 2
         else if channel = ''Zposition'' then Some 3
         else if channel = ''Zrotation'' then Some 4
         else if channel = ''Xrotation'' then Some 5
         else if channel = ''Yrotation'' then Some 6
         else None)
      else if joint = ''Spine'' then
        (if channel = ''Yrotation'' then Some 7 else None)
      else if joint = ''LeftArm'' then
        (if channel = ''Zrotation'' then Some 8
         else if channel = ''Yrotation'' then Some 9
         else if channel = ''Xrotation'' then Some 10
         else None)
      else None)"

definition demo_lookup :: "nat \<Rightarrow> string \<Rightarrow> string \<Rightarrow> exn + real" where
  "demo_lookup i joint channel =
     (case demo_sample joint channel of
        None \<Rightarrow> Inl (KeyError channel)
      | Some v \<Rightarrow> Inr (v + 10 * real i))"

definition demo_mocap :: bvh where
  "demo_mocap =
     \<lparr>get_joints = Inr [''Hips'', ''Spine'', ''Head'', ''LeftArm''],
      nframes = Inr 2,
      frame_joint_channel = demo_lookup,
      frame_time = Inr (1 / 30)\<rparr>"

definition demo_Bvh :: "string \<Rightarrow> exn + bvh" where
  "demo_Bvh text =
     (if text = ''demo'' then Inr demo_mocap
      else Inl (OtherError ''StopIteration'' ''''))"

definition demo_world :: world where
  "demo_world = \<lparr>files = [''walk.bvh'' \<mapsto> ''demo''], stdout = []\<rparr>"

definition demo_dataset :: motion_dataset where
  "demo_dataset =
     \<lparr>joint_names = [''Hips'', ''Spine'', ''Head'', ''LeftArm''],
      frames = [[1, 2, 3, 4, 5, 6, 7, 0, 8], [11, 12, 13, 14, 15, 16, 17, 0, 18]],
      frame_time = 1 / 30\<rparr>"


definition still_mocap :: bvh where
  "still_mocap = demo_mocap\<lparr>nframes := Inr 0\<rparr>"




text \<open>A constructor that returns the given object for every text.\<close>

definition fixed_Bvh :: "bvh \<Rightarrow> string \<Rightarrow> exn + bvh" where
  "fixed_Bvh mocap text = Inr mocap"

section \<open>Lists built by calls that may raise\<close>

lemma collect_Inr_all2:
  "collect f xs = Inr ys \<Longrightarrow> list_all2 (\<lambda>x y. f x = Inr y) xs ys"
  by (induction xs arbitrary: ys) (auto split: sum.splits)

lemma collect_Inr_length: "collect f xs = Inr ys \<Longrightarrow> length ys = length xs"
  by (drule collect_Inr_all2) (simp add: list_all2_lengthD)

lemma collect_Inr_nth: "collect f xs = Inr ys \<Longrightarrow> k < length xs \<Longrightarrow> f (xs ! k) = Inr (ys ! k)"
  by (drule collect_Inr_all2) (rule list_all2_nthD)



lemma collect_total:
  "(\<And>x. x \<in> set xs \<Longrightarrow> \<exists>y. f x = Inr y) \<Longrightarrow> \<exists>ys. collect f xs = Inr ys"
  by (induction xs) (fastforce split: sum.splits)+

lemma collect3:
  "collect f [a, b, c] = Inr vs \<longleftrightarrow> (\<exists>x y z. f a = Inr x \<and> f b = Inr y \<and> f c = Inr z \<and> vs = [x, y, z])"
  by (auto split: sum.splits)

section \<open>One row\<close>

lemma joint_rotation_unfold:
  "joint_rotation m i j =
     (case frame_joint_channel m i j ''Zrotation'' of
        Inr v \<Rightarrow> Inr v
      | Inl e \<Rightarrow> if is_KeyError e then
         (case frame_joint_channel m i j ''Yrotation'' of
            Inr v \<Rightarrow> Inr v
          | Inl e \<Rightarrow> if is_KeyError e then
             (case frame_joint_channel m i j ''Xrotation'' of
                Inr v \<Rightarrow> Inr v
              | Inl e \<Rightarrow> if is_KeyError e then Inr 0 else Inl e)
            else Inl e)
         else Inl e)"
  by (simp add: joint_rotation_def rotation_axes_def split: sum.splits)

lemma joint_rotation_total:
  assumes "\<And>a e. a \<in> set rotation_axes \<Longrightarrow> frame_joint_channel m i j a = Inl e \<Longrightarrow> is_KeyError e"
  shows "\<exists>v. joint_rotation m i j = Inr v"
  using assms [of "''Zrotation''"] assms [of "''Yrotation''"] assms [of "''Xrotation''"]
  by (auto simp: joint_rotation_unfold rotation_axes_def split: sum.splits)

lemma joint_rotation_absent:
  assumes "\<And>a. a \<in> set rotation_axes \<Longrightarrow> \<exists>e. frame_joint_channel m i j a = Inl e"
    and "joint_rotation m i j = Inr v"
  shows "v = 0"
  using assms(1) [of "''Zrotation''"] assms(1) [of "''Yrotation''"] assms(1) [of "''Xrotation''"]
    assms(2)
  by (auto simp: joint_rotation_unfold rotation_axes_def split: sum.splits if_splits)

lemma build_frame_Inr:
  assumes "build_frame m names i = Inr row"
  shows "\<exists>x y z rz rx ry rots.
           frame_joint_channel m i ''Hips'' ''Xposition'' = Inr x \<and>
           frame_joint_channel m i ''Hips'' ''Yposition'' = Inr y \<and>
           frame_joint_channel m i ''Hips'' ''Zposition'' = Inr z \<and>
           frame_joint_channel m i ''Hips'' ''Zrotation'' = Inr rz \<and>
           frame_joint_channel m i ''Hips'' ''Xrotation'' = Inr rx \<and>
           frame_joint_channel m i ''Hips'' ''Yrotation'' = Inr ry \<and>
           collect (joint_rotation m i) (drop 1 names) = Inr rots \<and>
           row = [x, y, z, rz, rx, ry] @ rots"
  using assms unfolding build_frame_def root_position_channels_def root_rotation_channels_def
  by (auto split: sum.splits simp: collect3)

lemma build_frame_width:
  "build_frame m names i = Inr row \<Longrightarrow> length row = 6 + length (drop 1 names)"
  by (drule build_frame_Inr) (auto dest: collect_Inr_length)

lemma row_cell:
  assumes "build_frame m names i = Inr row" and "0 < k" and "k < length names"
  shows "joint_rotation m i (names ! k) = Inr (row ! (k + 5)) \<and> k + 5 < length row"
proof -
  from build_frame_Inr [OF assms(1)] obtain six rots where
    r: "collect (joint_rotation m i) (drop 1 names) = Inr rots" "row = six @ rots"
       "length six = 6"
    by force
  have k: "k - 1 < length (drop 1 names)" using assms(2,3) by simp
  have "joint_rotation m i (drop 1 names ! (k - 1)) = Inr (rots ! (k - 1))"
    using r(1) k by (rule collect_Inr_nth)
  moreover have "drop 1 names ! (k - 1) = names ! k" using assms(2,3) by simp
  moreover have "row ! (k + 5) = rots ! (k - 1)"
    using r(2,3) assms(2) by (simp add: nth_append)
  moreover have "length rots = length (drop 1 names)" using r(1) by (rule collect_Inr_length)
  ultimately show ?thesis using r(2,3) k by simp
qed


lemma build_frame_total:
  assumes root: "\<And>c. c \<in> set (root_position_channels @ root_rotation_channels) \<Longrightarrow>
                   \<exists>v. frame_joint_channel m i ''Hips'' c = Inr v"
    and others: "\<And>j a e. j \<in> set (drop 1 names) \<Longrightarrow> a \<in> set rotation_axes \<Longrightarrow>
                   frame_joint_channel m i j a = Inl e \<Longrightarrow> is_KeyError e"
  shows "\<exists>row. build_frame m names i = Inr row"
proof -
  have "\<exists>ys. collect (frame_joint_channel m i ''Hips'') root_position_channels = Inr ys"
    by (rule collect_total) (simp add: root)
  moreover have "\<exists>ys. collect (frame_joint_channel m i ''Hips'') root_rotation_channels = Inr ys"
    by (rule collect_total) (simp add: root)
  moreover have "\<exists>ys. collect (joint_rotation m i) (drop 1 names) = Inr ys"
    by (rule collect_total) (rule joint_rotation_total, rule others)
  ultimately show ?thesis by (auto simp: build_frame_def)
qed


section \<open>All rows and the array\<close>

lemma build_frames_length: "build_frames m names n = Inr rows \<Longrightarrow> length rows = nat n"
  unfolding build_frames_def by (drule collect_Inr_length) simp

lemma build_frames_nth:
  "build_frames m names n = Inr rows \<Longrightarrow> i < nat n \<Longrightarrow> build_frame m names i = Inr (rows ! i)"
  unfolding build_frames_def by (drule collect_Inr_nth [where k = i]) simp_all

lemma build_frames_width:
  assumes "build_frames m names n = Inr rows" and "row \<in> set rows"
  shows "length row = 6 + length (drop 1 names)"
proof -
  from assms(2) obtain i where i: "i < length rows" "row = rows ! i"
    by (auto simp: in_set_conv_nth)
  with assms(1) have "build_frame m names i = Inr row"
    by (simp add: build_frames_nth build_frames_length)
  then show ?thesis by (rule build_frame_width)
qed

lemma build_frames_total:
  assumes "\<And>i. i < nat n \<Longrightarrow> \<exists>row. build_frame m names i = Inr row"
  shows "\<exists>rows. build_frames m names n = Inr rows"
  unfolding build_frames_def by (rule collect_total) (simp add: assms)


lemma np_array_uniform:
  assumes "\<And>r. r \<in> set rows \<Longrightarrow> length r = d"
  shows "np_array f32 rows = Inr (map (map f32) rows)"
proof (cases rows)
  case Nil
  then show ?thesis by (simp add: np_array_def)
next
  case (Cons r rs)
  then have "length (hd rows) = d" using assms by simp
  then show ?thesis using assms by (simp add: np_array_def list_all_iff)
qed

lemma build_frames_np_array:
  "build_frames m names n = Inr rows \<Longrightarrow> np_array f32 rows = Inr (map (map f32) rows)"
  by (rule np_array_uniform) (rule build_frames_width)

section \<open>What a call went through\<close>

lemma parse_bvh_readable:
  "files w p = Some text \<Longrightarrow> Bvh text = Inr mocap \<Longrightarrow> get_joints mocap = Inr names \<Longrightarrow>
   parse_bvh Bvh f32 p w = (extract_motion f32 mocap names, print_joints names w)"
  by (simp add: parse_bvh_def open_read_def)

lemma extract_motion_Inr:
  assumes "extract_motion f32 m names = Inr ds"
  shows "\<exists>n rows. nframes m = Inr n \<and> build_frames m names n = Inr rows \<and>
           np_array f32 rows = Inr (frames ds) \<and> joint_names ds = names \<and>
           bvh.frame_time m = Inr (frame_time ds)"
  using assms unfolding extract_motion_def by (auto split: sum.splits)

lemma extract_motion_rows:
  assumes "extract_motion f32 m names = Inr ds"
  shows "\<exists>n rows. nframes m = Inr n \<and> build_frames m names n = Inr rows \<and>
           frames ds = map (map f32) rows \<and> joint_names ds = names \<and>
           bvh.frame_time m = Inr (frame_time ds)"
proof -
  from extract_motion_Inr [OF assms] obtain n rows where
    a: "nframes m = Inr n" "build_frames m names n = Inr rows"
       "np_array f32 rows = Inr (frames ds)" "joint_names ds = names"
       "bvh.frame_time m = Inr (frame_time ds)"
    by blast
  from a(2) have "np_array f32 rows = Inr (map (map f32) rows)" by (rule build_frames_np_array)
  with a show ?thesis by auto
qed

lemma extract_motion_succeeds:
  assumes "nframes m = Inr n" "bvh.frame_time m = Inr ft" "build_frames m names n = Inr rows"
  shows "extract_motion f32 m names =
           Inr \<lparr>joint_names = names, frames = map (map f32) rows, frame_time = ft\<rparr>"
  using assms build_frames_np_array [OF assms(3), of f32] by (simp add: extract_motion_def)

lemma parse_bvh_Inr:
  assumes "parse_bvh Bvh f32 p w = (Inr ds, w')"
  shows "\<exists>text m. files w p = Some text \<and> Bvh text = Inr m \<and>
           get_joints m = Inr (joint_names ds) \<and>
           extract_motion f32 m (joint_names ds) = Inr ds \<and>
           w' = print_joints (joint_names ds) w"
  using assms unfolding parse_bvh_def open_read_def
  by (auto split: sum.splits option.splits dest: extract_motion_Inr)

lemma parse_bvh_success:
  assumes "files w p = Some text" "Bvh text = Inr m" "parse_bvh Bvh f32 p w = (Inr ds, w')"
  shows "\<exists>n rows. get_joints m = Inr (joint_names ds) \<and> nframes m = Inr n \<and>
           build_frames m (joint_names ds) n = Inr rows \<and>
           frames ds = map (map f32) rows \<and>
           bvh.frame_time m = Inr (frame_time ds) \<and> w' = print_joints (joint_names ds) w"
proof -
  from parse_bvh_Inr [OF assms(3)] assms(1,2)
  have a: "get_joints m = Inr (joint_names ds)" "extract_motion f32 m (joint_names ds) = Inr ds"
    "w' = print_joints (joint_names ds) w"
    by auto
  from extract_motion_rows [OF a(2)] a(1,3) show ?thesis by auto
qed

lemma parse_bvh_row:
  assumes "files w p = Some text" "Bvh text = Inr m" "parse_bvh Bvh f32 p w = (Inr ds, w')"
    and "i < length (frames ds)"
  shows "\<exists>n rows. nframes m = Inr n \<and> build_frames m (joint_names ds) n = Inr rows \<and>
           i < nat n \<and> build_frame m (joint_names ds) i = Inr (rows ! i) \<and>
           frames ds ! i = map f32 (rows ! i)"
proof -
  from parse_bvh_success [OF assms(1-3)] obtain n rows where
    r: "nframes m = Inr n" "build_frames m (joint_names ds) n = Inr rows"
       "frames ds = map (map f32) rows"
    by auto
  have len: "length rows = nat n" using r(2) by (rule build_frames_length)
  with assms(4) r(3) have i: "i < nat n" by simp
  with r(2) have "build_frame m (joint_names ds) i = Inr (rows ! i)" by (rule build_frames_nth)
  moreover have "frames ds ! i = map f32 (rows ! i)" using r(3) i len by simp
  ultimately show ?thesis using r i by blast
qed




section \<open>The example files, evaluated\<close>

lemmas parse_defs = parse_bvh_def open_read_def print_joints_def extract_motion_def
  build_frames_def build_frame_def joint_rotation_def rotation_axes_def
  root_position_channels_def root_rotation_channels_def np_array_def

lemmas demo_defs = demo_Bvh_def demo_mocap_def demo_world_def demo_dataset_def
  demo_lookup_def demo_sample_def

lemma upt2: "[0..<2] = [0, Suc 0]" by (simp add: upt_rec)

lemma demo_parse:
  "parse_bvh demo_Bvh id ''walk.bvh'' demo_world =
     (Inr demo_dataset,
      demo_world\<lparr>stdout := [Found_joints [''Hips'', ''Spine'', ''Head'', ''LeftArm'']]\<rparr>)"
  by (simp add: parse_defs demo_defs upt2)

lemma demo_file: "files demo_world ''walk.bvh'' = Some ''demo''"
  by (simp add: demo_world_def)

lemma demo_object: "demo_Bvh ''demo'' = Inr demo_mocap"
  by (simp add: demo_Bvh_def)

lemma fixed_object: "fixed_Bvh m ''demo'' = Inr m"
  by (simp add: fixed_Bvh_def)

lemma demo_lookup_simps:
  "frame_joint_channel demo_mocap = demo_lookup"
  "get_joints demo_mocap = Inr [''Hips'', ''Spine'', ''Head'', ''LeftArm'']"
  "nframes demo_mocap = Inr 2"
  "bvh.frame_time demo_mocap = Inr (1 / 30)"
  by (simp_all add: demo_mocap_def)

section \<open>Shape of the dataset\<close>

text \<open>
  Claim C1. When \<open>parse_bvh\<close> returns a dataset for a file that declares \<open>n \<ge> 0\<close> frames
  and has at least its root joint, the dataset has exactly \<open>n\<close> rows, and every row has
  \<open>len(joint_names) + 5\<close> values: six for the root and one for each other joint.
\<close>

theorem frames_shape:
  assumes "files w p = Some text" and "Bvh text = Inr mocap"
    and "parse_bvh Bvh f32 p w = (Inr ds, w')"
    and "nframes mocap = Inr n" and "0 \<le> n"
    and "joint_names ds \<noteq> []"
  shows "int (length (frames ds)) = n \<and>
         (\<forall>row \<in> set (frames ds). length row = length (joint_names ds) + 5)"
proof -
  from parse_bvh_success [OF assms(1-3)] assms(4) obtain rows where
    r: "build_frames mocap (joint_names ds) n = Inr rows" "frames ds = map (map f32) rows"
    by auto
  have "length rows = nat n" using r(1) by (rule build_frames_length)
  moreover have "\<And>row. row \<in> set rows \<Longrightarrow> length row = length (joint_names ds) + 5"
    using build_frames_width [OF r(1)] assms(6) by (cases "joint_names ds") auto
  ultimately show ?thesis using r(2) assms(5) by auto
qed

theorem frames_shape_witness:
  "parse_bvh demo_Bvh id ''walk.bvh'' demo_world =
     (Inr demo_dataset,
      demo_world\<lparr>stdout := [Found_joints [''Hips'', ''Spine'', ''Head'', ''LeftArm'']]\<rparr>) \<and>
   nframes demo_mocap = Inr 2 \<and> joint_names demo_dataset \<noteq> [] \<and>
   int (length (frames demo_dataset)) = 2 \<and>
   list_all (\<lambda>row. length row = length (joint_names demo_dataset) + 5) (frames demo_dataset)"
proof -
  have n: "nframes demo_mocap = Inr 2" by (simp add: demo_mocap_def)
  have j: "joint_names demo_dataset \<noteq> []" by (simp add: demo_dataset_def)
  from frames_shape [OF demo_file demo_object demo_parse n _ j] demo_parse n j
  show ?thesis by (simp add: list_all_iff)
qed

section \<open>Rotation of a non-root joint\<close>

text \<open>
  Claim C2. In a returned dataset, the column of the non-root joint number \<open>k\<close> (column
  \<open>k + 5\<close>) of frame \<open>i\<close> holds the first of the Z, Y and X rotation samples that the
  lookup returns, tried in that order: the Z sample whenever the Z lookup returns, whatever
  the Y and X lookups do; the Y sample when the Z lookup raises and the Y lookup returns;
  the X sample when both raise and the X lookup returns. The row built by the loop holds
  the sample itself and the stored array its float32 cast.
\<close>

theorem rotation_priority:
  assumes "files w p = Some text" and "Bvh text = Inr mocap"
    and "parse_bvh Bvh f32 p w = (Inr ds, w')"
    and "i < length (frames ds)" and "0 < k" and "k < length (joint_names ds)"
  shows "\<exists>n rows. nframes mocap = Inr n \<and> build_frames mocap (joint_names ds) n = Inr rows \<and>
           frames ds ! i ! (k + 5) = f32 (rows ! i ! (k + 5)) \<and>
           (\<forall>v. frame_joint_channel mocap i (joint_names ds ! k) ''Zrotation'' = Inr v
                  \<longrightarrow> rows ! i ! (k + 5) = v) \<and>
           (\<forall>e v. frame_joint_channel mocap i (joint_names ds ! k) ''Zrotation'' = Inl e \<and>
                  frame_joint_channel mocap i (joint_names ds ! k) ''Yrotation'' = Inr v
                  \<longrightarrow> rows ! i ! (k + 5) = v) \<and>
           (\<forall>e e' v. frame_joint_channel mocap i (joint_names ds ! k) ''Zrotation'' = Inl e \<and>
                  frame_joint_channel mocap i (joint_names ds ! k) ''Yrotation'' = Inl e' \<and>
                  frame_joint_channel mocap i (joint_names ds ! k) ''Xrotation'' = Inr v
                  \<longrightarrow> rows ! i ! (k + 5) = v)"
proof -
  from parse_bvh_row [OF assms(1-4)] obtain n rows where
    r: "nframes mocap = Inr n" "build_frames mocap (joint_names ds) n = Inr rows"
       "build_frame mocap (joint_names ds) i = Inr (rows ! i)"
       "frames ds ! i = map f32 (rows ! i)"
    by blast
  from row_cell [OF r(3) assms(5,6)] have
    c: "joint_rotation mocap i (joint_names ds ! k) = Inr (rows ! i ! (k + 5))"
       "k + 5 < length (rows ! i)"
    by simp_all
  have "frames ds ! i ! (k + 5) = f32 (rows ! i ! (k + 5))" using r(4) c(2) by simp
  moreover have "\<forall>v. frame_joint_channel mocap i (joint_names ds ! k) ''Zrotation'' = Inr v
                  \<longrightarrow> rows ! i ! (k + 5) = v"
    using c(1) by (auto simp: joint_rotation_unfold)
  moreover have "\<forall>e v. frame_joint_channel mocap i (joint_names ds ! k) ''Zrotation'' = Inl e \<and>
                  frame_joint_channel mocap i (joint_names ds ! k) ''Yrotation'' = Inr v
                  \<longrightarrow> rows ! i ! (k + 5) = v"
    using c(1) by (auto simp: joint_rotation_unfold split: if_splits)
  moreover have "\<forall>e e' v. frame_joint_channel mocap i (joint_names ds ! k) ''Zrotation'' = Inl e \<and>
                  frame_joint_channel mocap i (joint_names ds ! k) ''Yrotation'' = Inl e' \<and>
                  frame_joint_channel mocap i (joint_names ds ! k) ''Xrotation'' = Inr v
                  \<longrightarrow> rows ! i ! (k + 5) = v"
    using c(1) by (auto simp: joint_rotation_unfold split: if_splits)
  ultimately show ?thesis using r(1,2) by blast
qed

theorem rotation_priority_witness:
  "frame_joint_channel demo_mocap 1 ''LeftArm'' ''Zrotation'' = Inr 18 \<and>
   frame_joint_channel demo_mocap 1 ''LeftArm'' ''Yrotation'' = Inr 19 \<and>
   frame_joint_channel demo_mocap 1 ''LeftArm'' ''Xrotation'' = Inr 20 \<and>
   joint_names demo_dataset ! 3 = ''LeftArm'' \<and>
   (\<exists>rows. build_frames demo_mocap (joint_names demo_dataset) 2 = Inr rows \<and>
      rows ! 1 ! 8 = 18 \<and> frames demo_dataset ! 1 ! 8 = id 18)"
proof -
  have i: "1 < length (frames demo_dataset)" by (simp add: demo_dataset_def)
  have k: "3 < length (joint_names demo_dataset)" by (simp add: demo_dataset_def)
  have j: "joint_names demo_dataset ! 3 = ''LeftArm''" by (simp add: demo_dataset_def)
  have n: "nframes demo_mocap = Inr 2" by (simp add: demo_mocap_def)
  have z: "frame_joint_channel demo_mocap 1 ''LeftArm'' ''Zrotation'' = Inr 18"
    by (simp add: demo_mocap_def demo_lookup_def demo_sample_def)
  have y: "frame_joint_channel demo_mocap 1 ''LeftArm'' ''Yrotation'' = Inr 19"
    by (simp add: demo_mocap_def demo_lookup_def demo_sample_def)
  have x: "frame_joint_channel demo_mocap 1 ''LeftArm'' ''Xrotation'' = Inr 20"
    by (simp add: demo_mocap_def demo_lookup_def demo_sample_def)
  from rotation_priority [OF demo_file demo_object demo_parse i _ k] j z n
  have "\<exists>rows. build_frames demo_mocap (joint_names demo_dataset) 2 = Inr rows \<and>
      rows ! 1 ! 8 = 18 \<and> frames demo_dataset ! 1 ! 8 = id 18"
    by auto
  with z y x j show ?thesis by blast
qed

text \<open>
  Claim C3. Take a file that can be read, whose root has its six channels in every frame,
  and whose other joints raise nothing but \<^verbatim>\<open>KeyError\<close> on a rotation lookup. If the three
  rotation lookups of the non-root joint number \<open>k\<close> all raise in frame \<open>i\<close>, then
  \<open>parse_bvh\<close> still returns a dataset, and the value emitted for that joint in that frame
  is the literal 0.0 of line 52 (stored as its float32 cast).
\<close>

theorem absent_rotation_is_zero:
  assumes "files w p = Some text" and "Bvh text = Inr mocap"
    and "get_joints mocap = Inr names" and "nframes mocap = Inr n"
    and "bvh.frame_time mocap = Inr ft"
    and root: "\<forall>i<nat n. \<forall>c\<in>set (root_position_channels @ root_rotation_channels).
                 \<exists>v. frame_joint_channel mocap i ''Hips'' c = Inr v"
    and others: "\<forall>i<nat n. \<forall>j\<in>set (drop 1 names). \<forall>a\<in>set rotation_axes. \<forall>e.
                 frame_joint_channel mocap i j a = Inl e \<longrightarrow> is_KeyError e"
    and "i < nat n" and "0 < k" and "k < length names"
    and absent: "\<forall>a\<in>set rotation_axes. \<exists>e. frame_joint_channel mocap i (names ! k) a = Inl e"
  shows "\<exists>ds rows. parse_bvh Bvh f32 p w = (Inr ds, print_joints names w) \<and>
           joint_names ds = names \<and> build_frames mocap names n = Inr rows \<and>
           rows ! i ! (k + 5) = 0 \<and> frames ds ! i ! (k + 5) = f32 0"
proof -
  have "\<exists>rows. build_frames mocap names n = Inr rows"
  proof (rule build_frames_total)
    fix i assume "i < nat n"
    then show "\<exists>row. build_frame mocap names i = Inr row"
      using root others by (intro build_frame_total) blast+
  qed
  then obtain rows where rows: "build_frames mocap names n = Inr rows" ..
  let ?ds = "\<lparr>joint_names = names, frames = map (map f32) rows, frame_time = ft\<rparr>"
  have p: "parse_bvh Bvh f32 p w = (Inr ?ds, print_joints names w)"
    using assms(1-3) extract_motion_succeeds [OF assms(4,5) rows, of f32]
    by (simp add: parse_bvh_readable)
  have row: "build_frame mocap names i = Inr (rows ! i)"
    using rows \<open>i < nat n\<close> by (rule build_frames_nth)
  from row_cell [OF row \<open>0 < k\<close> \<open>k < length names\<close>] have
    c: "joint_rotation mocap i (names ! k) = Inr (rows ! i ! (k + 5))" "k + 5 < length (rows ! i)"
    by simp_all
  have z: "rows ! i ! (k + 5) = 0"
    using absent c(1) by (intro joint_rotation_absent [of mocap i "names ! k"]) blast+
  have "i < length rows" using build_frames_length [OF rows] \<open>i < nat n\<close> by simp
  then have "frames ?ds ! i ! (k + 5) = f32 0" using c(2) z by simp
  with p rows z show ?thesis by (intro exI [of _ ?ds] exI [of _ rows]) simp
qed

theorem absent_rotation_is_zero_witness:
  "frame_joint_channel demo_mocap 0 ''Head'' ''Zrotation'' = Inl (KeyError ''Zrotation'') \<and>
   frame_joint_channel demo_mocap 0 ''Head'' ''Yrotation'' = Inl (KeyError ''Yrotation'') \<and>
   frame_joint_channel demo_mocap 0 ''Head'' ''Xrotation'' = Inl (KeyError ''Xrotation'') \<and>
   (\<exists>ds rows. parse_bvh demo_Bvh id ''walk.bvh'' demo_world =
        (Inr ds, print_joints [''Hips'', ''Spine'', ''Head'', ''LeftArm''] demo_world) \<and>
      build_frames demo_mocap [''Hips'', ''Spine'', ''Head'', ''LeftArm''] 2 = Inr rows \<and>
      rows ! 0 ! 7 = 0 \<and> frames ds ! 0 ! 7 = id 0)"
proof -
  let ?names = "[''Hips'', ''Spine'', ''Head'', ''LeftArm'']"
  have root: "\<forall>i<nat 2. \<forall>c\<in>set (root_position_channels @ root_rotation_channels).
                 \<exists>v. frame_joint_channel demo_mocap i ''Hips'' c = Inr v"
    by (simp add: demo_lookup_simps demo_lookup_def demo_sample_def
        root_position_channels_def root_rotation_channels_def)
  have others: "\<forall>i<nat 2. \<forall>j\<in>set (drop 1 ?names). \<forall>a\<in>set rotation_axes. \<forall>e.
                 frame_joint_channel demo_mocap i j a = Inl e \<longrightarrow> is_KeyError e"
    by (auto simp: demo_lookup_simps demo_lookup_def demo_sample_def rotation_axes_def)
  have absent: "\<forall>a\<in>set rotation_axes. \<exists>e. frame_joint_channel demo_mocap 0 (?names ! 2) a = Inl e"
    by (simp add: demo_lookup_simps demo_lookup_def demo_sample_def rotation_axes_def)
  have z: "frame_joint_channel demo_mocap 0 ''Head'' ''Zrotation'' = Inl (KeyError ''Zrotation'')"
    "frame_joint_channel demo_mocap 0 ''Head'' ''Yrotation'' = Inl (KeyError ''Yrotation'')"
    "frame_joint_channel demo_mocap 0 ''Head'' ''Xrotation'' = Inl (KeyError ''Xrotation'')"
    by (simp_all add: demo_lookup_simps demo_lookup_def demo_sample_def)
  from absent_rotation_is_zero [where Bvh = demo_Bvh and ?f32.0 = id and k = 2 and i = 0,
      OF demo_file demo_object demo_lookup_simps(2,3,4) root others _ _ _ absent]
  have "\<exists>ds rows. parse_bvh demo_Bvh id ''walk.bvh'' demo_world =
        (Inr ds, print_joints ?names demo_world) \<and>
      build_frames demo_mocap ?names 2 = Inr rows \<and>
      rows ! 0 ! 7 = 0 \<and> frames ds ! 0 ! 7 = id 0"
    by auto
  with z show ?thesis by blast
qed

section \<open>The root columns\<close>





section \<open>Header failures come first\<close>



section \<open>Repeated calls\<close>



section \<open>A file with no frames\<close>

text \<open>
  Claim C9. For a readable file whose hierarchy is read and which declares zero frames,
  \<open>parse_bvh\<close> returns a dataset with no rows and with all the joint names, in the order
  \<^verbatim>\<open>get_joints\<close> gave them.
\<close>

theorem zero_frames_dataset:
  assumes "files w p = Some text" and "Bvh text = Inr mocap"
    and "get_joints mocap = Inr names" and "nframes mocap = Inr 0"
    and "bvh.frame_time mocap = Inr ft"
  shows "parse_bvh Bvh f32 p w =
           (Inr \<lparr>joint_names = names, frames = [], frame_time = ft\<rparr>, print_joints names w)"
  using assms
  by (simp add: parse_bvh_readable extract_motion_def build_frames_def np_array_def)

theorem zero_frames_dataset_witness:
  "nframes still_mocap = Inr 0 \<and>
   parse_bvh (fixed_Bvh still_mocap) id ''walk.bvh'' demo_world =
     (Inr \<lparr>joint_names = [''Hips'', ''Spine'', ''Head'', ''LeftArm''], frames = [],
           frame_time = 1 / 30\<rparr>,
      print_joints [''Hips'', ''Spine'', ''Head'', ''LeftArm''] demo_world)"
proof -
  have j: "get_joints still_mocap = Inr [''Hips'', ''Spine'', ''Head'', ''LeftArm'']"
    and n: "nframes still_mocap = Inr 0"
    and t: "bvh.frame_time still_mocap = Inr (1 / 30)"
    by (simp_all add: still_mocap_def demo_mocap_def)
  from zero_frames_dataset [where Bvh = "fixed_Bvh still_mocap" and ?f32.0 = id,
      OF demo_file fixed_object j n t] n
  show ?thesis by simp
qed

section \<open>The name of the root\<close>




end
